theory Spec2Isabelle
  imports Main "HOL-Library.Word"
begin

section \<open>The annotation client \<open>annotate.py\<close>\<close>

text \<open>
  A shallow embedding of
  \<^verbatim>\<open>src/plugins/docx-easy-comments/skills/docx-easy-comments/annotate.py\<close>.
  The script is a straight line of stages (scan the command line, check the required
  arguments, validate the annotations, read the input file, POST, handle the response),
  each of which may end the process. A run is modelled as a function from the command
  line and the world around the process to an \<open>outcome\<close>: how the process ended, what it
  printed on standard output, and the trace of its effects on the network and the file
  system. Everything the script calls but does not define (the file system, the HTTP
  service, and the library functions \<^verbatim>\<open>json.loads\<close>, \<^verbatim>\<open>base64.b64decode\<close>,
  \<^verbatim>\<open>os.path.abspath\<close>, \<^verbatim>\<open>os.path.basename\<close>) is a field of the record \<open>env\<close>.
  Resource exhaustion (\<^verbatim>\<open>MemoryError\<close>, \<^verbatim>\<open>RecursionError\<close>) is not modelled.
\<close>

subsection \<open>Data\<close>

type_synonym bytes = "8 word list"

text \<open>
  A value as \<^verbatim>\<open>json.loads\<close> returns it. A Python \<^verbatim>\<open>dict\<close> is an association list read
  with \<open>map_of\<close>; a float is carried as its literal, since the script only passes it on.
  A Python \<^verbatim>\<open>str\<close> is a \<open>string\<close>, one \<open>char\<close> for each character, so that
  \<^verbatim>\<open>s[:500]\<close> is \<open>take 500 s\<close>.
\<close>

datatype json =
    JNull
  | JBool bool
  | JInt int
  | JFloat string
  | JString string
  | JArray "json list"
  | JObject "(string \<times> json) list"

text \<open>\<^verbatim>\<open>isinstance(v, list)\<close>, \<^verbatim>\<open>isinstance(v, dict)\<close> and \<^verbatim>\<open>d.get(k)\<close> on a dict.\<close>

fun is_list :: "json \<Rightarrow> bool" where
  "is_list (JArray xs) = True"
| "is_list v = False"

fun is_dict :: "json \<Rightarrow> bool" where
  "is_dict (JObject kv) = True"
| "is_dict v = False"

fun dict_get :: "json \<Rightarrow> string \<Rightarrow> json option" where
  "dict_get (JObject kv) k = map_of kv k"
| "dict_get v k = None"

text \<open>The multipart POST of lines 138-147.\<close>

record request =
  url :: string
  file_name :: string
  file_bytes :: bytes
  file_mime :: string
  request_body :: json
  accept :: string
  timeout :: nat

text \<open>
  The response object: \<^verbatim>\<open>resp.status_code\<close>, \<^verbatim>\<open>resp.text\<close> and the result of
  \<^verbatim>\<open>resp.json()\<close>, which is \<open>Inl\<close> the message of the decode error when the body is
  not JSON.
\<close>

record response =
  status_code :: int
  resp_text :: string
  resp_json :: "string + json"

text \<open>
  Reading a text file as UTF-8 (lines 59-60): the content, an \<^verbatim>\<open>OSError\<close> (which
  \<^verbatim>\<open>FileNotFoundError\<close> and \<^verbatim>\<open>IOError\<close> are) with its message, or a
  \<^verbatim>\<open>UnicodeDecodeError\<close>, which line 61 does not catch.
\<close>

datatype text_read = Content string | ReadError string | DecodeError

record env =
  requests_installed :: bool
  read_text :: "string \<Rightarrow> text_read"
  read_bytes :: "string \<Rightarrow> string + bytes"
  abspath :: "string \<Rightarrow> string"
  basename :: "string \<Rightarrow> string"
  json_loads :: "string \<Rightarrow> string + json"
  post :: "request \<Rightarrow> string + response"
  b64decode :: "string \<Rightarrow> string + bytes"
  open_wb :: "string \<Rightarrow> string option"
  write_error :: "string \<Rightarrow> bytes \<Rightarrow> string option"

text \<open>
  \<open>read_bytes\<close>, \<open>json_loads\<close>, \<open>post\<close> and \<open>b64decode\<close> return \<open>Inl\<close> the message of
  the exception they raise (\<^verbatim>\<open>OSError\<close>, \<^verbatim>\<open>JSONDecodeError\<close>,
  \<^verbatim>\<open>RequestException\<close>, \<^verbatim>\<open>ValueError\<close>); \<open>open_wb p\<close> and \<open>write_error p b\<close> are
  \<open>Some\<close> the message of the \<^verbatim>\<open>OSError\<close> when opening \<open>p\<close> for writing, or writing \<open>b\<close>
  to it, fails.
\<close>

subsection \<open>Outcomes\<close>

datatype exn = TypeError | AttributeError | UnicodeDecodeError

datatype ending = SysExit int | Uncaught exn

text \<open>
  What a \<^verbatim>\<open>print\<close> wrote: the text of \<^verbatim>\<open>json.dumps\<close> of a value (with the \<^verbatim>\<open>indent\<close>
  given, if any), or plain text.
\<close>

datatype printed = PrintJson "nat option" json | PrintText string

text \<open>
  Effects outside the process: the POST was sent; a file was created, or truncated, by
  \<^verbatim>\<open>open(p, "wb")\<close>; bytes were written to it.
\<close>

datatype event = Post request | Create string | Write string bytes

record outcome =
  how :: ending
  stdout :: "printed list"
  trace :: "event list"

text \<open>The status the process exits with: an uncaught exception makes Python exit with 1.\<close>

fun exit_code :: "ending \<Rightarrow> int" where
  "exit_code (SysExit n) = n"
| "exit_code (Uncaught e) = 1"

text \<open>Lines 36-38.\<close>

definition bail :: "json \<Rightarrow> outcome" where
  "bail msg =
     \<lparr>how = SysExit 1,
      stdout = [PrintJson None (JObject [(''ok'', JBool False), (''error'', msg)])],
      trace = []\<rparr>"

definition uncaught :: "exn \<Rightarrow> outcome" where
  "uncaught e = \<lparr>how = Uncaught e, stdout = [], trace = []\<rparr>"

text \<open>An outcome reached after the effects \<open>evs\<close> had already happened.\<close>

definition after :: "event list \<Rightarrow> outcome \<Rightarrow> outcome" where
  "after evs out = out\<lparr>trace := evs @ trace out\<rparr>"

text \<open>The files after a run, from the files before it.\<close>

fun apply_event :: "(string \<rightharpoonup> bytes) \<Rightarrow> event \<Rightarrow> (string \<rightharpoonup> bytes)" where
  "apply_event fs (Post r) = fs"
| "apply_event fs (Create p) = fs(p \<mapsto> [])"
| "apply_event fs (Write p b) = fs(p \<mapsto> (case fs p of None \<Rightarrow> b | Some old \<Rightarrow> old @ b))"

definition files_after :: "(string \<rightharpoonup> bytes) \<Rightarrow> outcome \<Rightarrow> (string \<rightharpoonup> bytes)" where
  "files_after fs out = foldl apply_event fs (trace out)"

subsection \<open>Scanning the command line (lines 43-105)\<close>

record opts =
  annotations_json :: "string option"
  service_url :: string
  author :: string
  initials :: string
  positional :: "string list"

definition default_service_url :: string where
  "default_service_url = ''https://comments-service.edumagick.com/''"

definition init_opts :: opts where
  "init_opts =
     \<lparr>annotations_json = None,
      service_url = default_service_url,
      author = ''AI Assistant'',
      initials = ''AI'',
      positional = []\<rparr>"

definition nl :: string where
  "nl = [CHR 0x0A]"

definition help_text :: string where
  "help_text =
     ''Usage: python3 annotate.py <input.docx> <output.docx> '<json>' [options]'' @ nl @
     nl @
     ''Arguments:'' @ nl @
     ''  input.docx       Source Word document'' @ nl @
     ''  output.docx      Where to write the annotated document'' @ nl @
     ''  <json>           Annotations array as inline JSON string'' @ nl @
     nl @
     ''Options:'' @ nl @
     ''  --json <file>    Read annotations from a JSON file instead of inline'' @ nl @
     ''  --url <url>      Service URL (default: https://comments-service.edumagick.com/)'' @ nl @
     ''  --author <name>  Author name (default: AI Assistant)'' @ nl @
     ''  --initials <i>   Author initials (default: AI)'' @ nl @
     nl @
     ''Annotation types:'' @ nl @
     ''  { \"type\": \"Comment\",  \"find\": \"...\", \"comment\": \"...\" }'' @ nl @
     ''  { \"type\": \"Replace\",  \"find\": \"...\", \"replacement\": \"...\" }'' @ nl @
     ''  { \"type\": \"Delete\",   \"find\": \"...\" }'' @ nl @
     ''  { \"type\": \"Insert\",   \"find\": \"...\", \"text\": \"...\", \"position\": \"after\"|\"before\" }''"

definition help_exit :: outcome where
  "help_exit = \<lparr>how = SysExit 0, stdout = [PrintText help_text], trace = []\<rparr>"

text \<open>
  The \<^verbatim>\<open>while\<close> loop over \<^verbatim>\<open>args\<close>, as a recursion on the arguments not yet read.
  An option that takes a value reads \<^verbatim>\<open>args[i]\<close> after \<^verbatim>\<open>i += 1\<close>, which raises
  \<^verbatim>\<open>IndexError\<close> (``list index out of range'') when the option is the last argument.
\<close>

fun parse_loop :: "env \<Rightarrow> string list \<Rightarrow> opts \<Rightarrow> outcome + opts" where
  "parse_loop env [] st = Inr st"
| "parse_loop env (arg # rest) st =
     (if arg = ''--json'' then
        (case rest of
           [] \<Rightarrow> Inl (bail (JString (''Cannot read JSON file: '' @ ''list index out of range'')))
         | p # rest' \<Rightarrow>
            (case read_text env p of
               ReadError e \<Rightarrow> Inl (bail (JString (''Cannot read JSON file: '' @ e)))
             | DecodeError \<Rightarrow> Inl (uncaught UnicodeDecodeError)
             | Content s \<Rightarrow> parse_loop env rest' (st\<lparr>annotations_json := Some s\<rparr>)))
      else if arg = ''--url'' then
        (case rest of
           [] \<Rightarrow> Inl (bail (JString ''Missing value for --url''))
         | v # rest' \<Rightarrow> parse_loop env rest' (st\<lparr>service_url := v\<rparr>))
      else if arg = ''--author'' then
        (case rest of
           [] \<Rightarrow> Inl (bail (JString ''Missing value for --author''))
         | v # rest' \<Rightarrow> parse_loop env rest' (st\<lparr>author := v\<rparr>))
      else if arg = ''--initials'' then
        (case rest of
           [] \<Rightarrow> Inl (bail (JString ''Missing value for --initials''))
         | v # rest' \<Rightarrow> parse_loop env rest' (st\<lparr>initials := v\<rparr>))
      else if arg = ''--help'' \<or> arg = ''-h'' then Inl help_exit
      else parse_loop env rest (st\<lparr>positional := positional st @ [arg]\<rparr>))"

definition parse_args :: "env \<Rightarrow> string list \<Rightarrow> outcome + opts" where
  "parse_args env args = parse_loop env args init_opts"

subsection \<open>Required arguments and the annotations (lines 107-121)\<close>

text \<open>Lines 109-110: the third positional argument is read only when no file was.\<close>

definition annotations_input :: "opts \<Rightarrow> string option" where
  "annotations_input st =
     (if annotations_json st = None \<and> length (positional st) > 2
      then Some (positional st ! 2) else annotations_json st)"

definition usage :: string where
  "usage = ''Usage: python3 annotate.py <input.docx> <output.docx> '<json>' [--json FILE] [--url URL] [--author NAME] [--initials XX]''"

text \<open>
  Lines 107-113. \<^verbatim>\<open>not x\<close> holds of \<^verbatim>\<open>None\<close> and of the empty string. The result is
  the input path, the output path and the annotations text.
\<close>

definition falsy :: "string option \<Rightarrow> bool" where
  "falsy x = (case x of None \<Rightarrow> True | Some s \<Rightarrow> s = [])"

definition required :: "opts \<Rightarrow> outcome + (string \<times> string \<times> string)" where
  "required st =
     (let input_path = (if length (positional st) > 0 then Some (positional st ! 0) else None);
          output_path = (if length (positional st) > 1 then Some (positional st ! 1) else None);
          annotations_text = annotations_input st
      in if falsy input_path \<or> falsy output_path \<or> falsy annotations_text
         then Inl (bail (JString usage))
         else (case (input_path, output_path, annotations_text) of
                 (Some i, Some out, Some a) \<Rightarrow> Inr (i, out, a)
               | _ \<Rightarrow> Inl (bail (JString usage))))"

text \<open>Lines 116-121.\<close>

definition validate :: "env \<Rightarrow> string \<Rightarrow> outcome + json" where
  "validate env annotations_text =
     (case json_loads env annotations_text of
        Inl e \<Rightarrow> Inl (bail (JString (''Invalid annotations JSON: '' @ e)))
      | Inr annotations \<Rightarrow>
          if \<not> is_list annotations
          then Inl (bail (JString (''Invalid annotations JSON: '' @ ''Expected a JSON array of annotations'')))
          else Inr annotations)"

subsection \<open>The request (lines 125-149)\<close>

text \<open>\<^verbatim>\<open>s.rstrip(c)\<close> for a single character \<open>c\<close>.\<close>

definition rstrip :: "char \<Rightarrow> string \<Rightarrow> string" where
  "rstrip c s = rev (dropWhile (\<lambda>x. x = c) (rev s))"

definition docx_mime :: string where
  "docx_mime = ''application/vnd.openxmlformats-officedocument.wordprocessingml.document''"

text \<open>
  Lines 134-147. \<open>request_body\<close> holds the value whose \<^verbatim>\<open>json.dumps\<close> text is sent in
  the form field \<^verbatim>\<open>request\<close>.
\<close>

definition build_request :: "env \<Rightarrow> opts \<Rightarrow> string \<Rightarrow> bytes \<Rightarrow> json \<Rightarrow> request" where
  "build_request env st input_path fbytes annotations =
     \<lparr>url = rstrip CHR ''/'' (service_url st) @ ''/api/annotate'',
      file_name = basename env input_path,
      file_bytes = fbytes,
      file_mime = docx_mime,
      request_body =
        JObject [(''author'', JString (author st)), (''initials'', JString (initials st)),
                 (''annotations'', annotations)],
      accept = ''application/json'',
      timeout = 120\<rparr>"

text \<open>
  Everything before the POST (lines 29-135): the import of \<^verbatim>\<open>requests\<close>, the command
  line, the required arguments, the annotations and the input file. The result is the
  options, the output path and the request to send.
\<close>

definition prepare :: "env \<Rightarrow> string list \<Rightarrow> outcome + (opts \<times> string \<times> request)" where
  "prepare env args =
     (if \<not> requests_installed env
      then Inl (bail (JString ''Missing dependency: pip install requests''))
      else
        (case parse_args env args of
           Inl out \<Rightarrow> Inl out
         | Inr st \<Rightarrow>
            (case required st of
               Inl out \<Rightarrow> Inl out
             | Inr (input_path, output_path, annotations_text) \<Rightarrow>
                (case validate env annotations_text of
                   Inl out \<Rightarrow> Inl out
                 | Inr annotations \<Rightarrow>
                    (case read_bytes env (abspath env input_path) of
                       Inl e \<Rightarrow> Inl (bail (JString (''Cannot read input file: '' @ e)))
                     | Inr fbytes \<Rightarrow>
                        Inr (st, output_path,
                             build_request env st input_path fbytes annotations))))))"

subsection \<open>The response (lines 153-183)\<close>

text \<open>
  Lines 171-183. The file is opened, and so created or truncated, before
  \<^verbatim>\<open>envelope["file"]\<close> is read and decoded. Subscripting a value that is not a
  dict with a string, and \<^verbatim>\<open>b64decode\<close> of a value that is not a string, raise
  \<^verbatim>\<open>TypeError\<close>, which line 182 does not catch.
\<close>

definition unexpected :: "string \<Rightarrow> outcome" where
  "unexpected e = bail (JString (''Unexpected response from service: '' @ e))"

definition write_output :: "env \<Rightarrow> string \<Rightarrow> response \<Rightarrow> outcome" where
  "write_output env output_path resp =
     (case resp_json resp of
        Inl e \<Rightarrow> unexpected e
      | Inr envelope \<Rightarrow>
          let out_path = abspath env output_path in
          (case open_wb env out_path of
             Some e \<Rightarrow> unexpected e
           | None \<Rightarrow>
               after [Create out_path]
                 (if \<not> is_dict envelope then uncaught TypeError
                  else
                    (case dict_get envelope ''file'' of
                       None \<Rightarrow> unexpected (CHR 0x27 # ''file'' @ [CHR 0x27])
                     | Some (JString s) \<Rightarrow>
                         (case b64decode env s of
                            Inl e \<Rightarrow> unexpected e
                          | Inr decoded \<Rightarrow>
                              (case write_error env out_path decoded of
                                 Some e \<Rightarrow> unexpected e
                               | None \<Rightarrow>
                                   \<lparr>how = SysExit 0,
                                    stdout = [PrintJson (Some 2)
                                      (JObject [(''ok'', JBool True), (''output'', JString out_path)])],
                                    trace = [Write out_path decoded]\<rparr>))
                     | Some v \<Rightarrow> uncaught TypeError))))"

text \<open>
  Lines 153-169. \<^verbatim>\<open>err.get\<close> on line 169 is called on whatever \<^verbatim>\<open>resp.json()\<close>
  returned; a value that is not a dict has no \<^verbatim>\<open>get\<close> and raises
  \<^verbatim>\<open>AttributeError\<close>.
\<close>

definition handle_response :: "env \<Rightarrow> string \<Rightarrow> response \<Rightarrow> outcome" where
  "handle_response env output_path resp =
     (if status_code resp \<noteq> 200 then
        (case resp_json resp of
           Inl e \<Rightarrow> bail (JString (take 500 (resp_text resp)))
         | Inr err \<Rightarrow>
             if status_code resp = 422 \<and> is_dict err \<and>
                (case dict_get err ''errors'' of None \<Rightarrow> False | Some v \<Rightarrow> is_list v)
             then
               \<lparr>how = SysExit 2,
                stdout = [PrintJson (Some 2)
                  (JObject [(''ok'', JBool False),
                            (''error'', JString ''One or more annotations could not be applied.''),
                            (''errors'', (case dict_get err ''errors'' of None \<Rightarrow> JNull | Some v \<Rightarrow> v))])],
                trace = []\<rparr>
             else if \<not> is_dict err then uncaught AttributeError
             else
               bail (case dict_get err ''error'' of
                       None \<Rightarrow> JString (take 500 (resp_text resp))
                     | Some v \<Rightarrow> v))
      else write_output env output_path resp)"

subsection \<open>The whole run\<close>

definition main :: "env \<Rightarrow> string list \<Rightarrow> outcome" where
  "main env args =
     (case prepare env args of
        Inl out \<Rightarrow> out
      | Inr (st, output_path, req) \<Rightarrow>
          after [Post req]
            (case post env req of
               Inl e \<Rightarrow>
                 bail (JString (''Cannot connect to annotation service at '' @ service_url st
                                 @ '': '' @ e))
             | Inr resp \<Rightarrow> handle_response env output_path resp))"

subsection \<open>The command line as documented\<close>

text \<open>
  The usage text (lines 90-94) documents four options that take a value, each written
  before its value. \<open>option_values opt args\<close> lists the values given to \<open>opt\<close> on the
  command line \<open>args\<close>, in order; it is what the scan is compared with.
\<close>

definition value_options :: "string list" where
  "value_options = [''--json'', ''--url'', ''--author'', ''--initials'']"

fun option_values :: "string \<Rightarrow> string list \<Rightarrow> string list" where
  "option_values opt (a # v # rest) =
     (if a \<in> set value_options
      then (if a = opt then v # option_values opt rest else option_values opt rest)
      else option_values opt (v # rest))"
| "option_values opt rest = []"


text \<open>
  What a scan of \<open>args\<close> that started from \<open>st\<close> and ran to the end has read into
  \<open>st'\<close>: the last value of \<^verbatim>\<open>--url\<close>, and the content of the last file of
  \<^verbatim>\<open>--json\<close>.
\<close>

definition scanned :: "env \<Rightarrow> string list \<Rightarrow> opts \<Rightarrow> opts \<Rightarrow> bool" where
  "scanned env args st st' \<longleftrightarrow>
     service_url st' =
       (if option_values ''--url'' args = [] then service_url st
        else last (option_values ''--url'' args)) \<and>
     (if option_values ''--json'' args = [] then annotations_json st' = annotations_json st
      else \<exists>s. read_text env (last (option_values ''--json'' args)) = Content s \<and>
               annotations_json st' = Some s)"

subsection \<open>A concrete world\<close>

text \<open>
  A small world to run the script in: an annotations file \<^verbatim>\<open>notes.json\<close> holding
  \<^verbatim>\<open>[]\<close>, an empty file \<^verbatim>\<open>empty.json\<close>, one input document, a working directory
  \<^verbatim>\<open>/work\<close>, a JSON reader that knows two texts, a base64 decoder that knows
  \<^verbatim>\<open>UEs=\<close> (the bytes \<^verbatim>\<open>PK\<close>), and a service that answers every request with
  \<open>answer\<close>.
\<close>

definition demo_env :: "string + response \<Rightarrow> env" where
  "demo_env answer =
     \<lparr>requests_installed = True,
      read_text = (\<lambda>p. if p = ''notes.json'' then Content ''[]''
                        else if p = ''empty.json'' then Content []
                        else ReadError ''No such file''),
      read_bytes = (\<lambda>p. if p = ''/work/in.docx'' then Inr [0x50, 0x4B] else Inl ''No such file''),
      abspath = (\<lambda>p. ''/work/'' @ p),
      basename = (\<lambda>p. p),
      json_loads = (\<lambda>s. if s = ''[]'' then Inr (JArray [])
                         else if s = ''{}'' then Inr (JObject [])
                         else Inl ''Expecting value''),
      post = (\<lambda>r. answer),
      b64decode = (\<lambda>s. if s = ''UEs='' then Inr [0x50, 0x4B] else Inl ''Incorrect padding''),
      open_wb = (\<lambda>p. None),
      write_error = (\<lambda>p b. None)\<rparr>"

definition demo_args :: "string list" where
  "demo_args = [''in.docx'', ''out.docx'', ''[]'']"

definition demo_request :: "string \<Rightarrow> request" where
  "demo_request u =
     \<lparr>url = u,
      file_name = ''in.docx'',
      file_bytes = [0x50, 0x4B],
      file_mime = docx_mime,
      request_body =
        JObject [(''author'', JString ''AI Assistant''), (''initials'', JString ''AI''),
                 (''annotations'', JArray [])],
      accept = ''application/json'',
      timeout = 120\<rparr>"

definition demo_url :: string where
  "demo_url = ''https://comments-service.edumagick.com/api/annotate''"

text \<open>Answers of the service: the annotated document, and four failures.\<close>

definition response_ok :: response where
  "response_ok =
     \<lparr>status_code = 200, resp_text = ''{\"file\": \"UEs=\"}'',
      resp_json = Inr (JObject [(''file'', JString ''UEs='')])\<rparr>"

definition response_unresolved :: response where
  "response_unresolved =
     \<lparr>status_code = 422, resp_text = ''{\"errors\": [\"no match\"]}'',
      resp_json = Inr (JObject [(''errors'', JArray [JString ''no match''])])\<rparr>"

definition response_no_file :: response where
  "response_no_file = \<lparr>status_code = 200, resp_text = ''{}'', resp_json = Inr (JObject [])\<rparr>"

definition response_list_body :: response where
  "response_list_body = \<lparr>status_code = 500, resp_text = ''[]'', resp_json = Inr (JArray [])\<rparr>"

definition response_string_body :: response where
  "response_string_body =
     \<lparr>status_code = 404, resp_text = ''\"Not Found\"'', resp_json = Inr (JString ''Not Found'')\<rparr>"

section \<open>Properties\<close>

subsection \<open>Outcomes and the concrete world\<close>

lemma how_after: "how (after evs out) = how out"
  by (simp add: after_def)

lemma stdout_after: "stdout (after evs out) = stdout out"
  by (simp add: after_def)

lemma trace_after: "trace (after evs out) = evs @ trace out"
  by (simp add: after_def)

lemma bail_fields:
  "how (bail msg) = SysExit 1"
  "stdout (bail msg) = [PrintJson None (JObject [(''ok'', JBool False), (''error'', msg)])]"
  "trace (bail msg) = []"
  by (simp_all add: bail_def)

lemma demo_env_fields:
  "requests_installed (demo_env a) = True"
  "read_text (demo_env a) p =
     (if p = ''notes.json'' then Content ''[]''
      else if p = ''empty.json'' then Content [] else ReadError ''No such file'')"
  "read_bytes (demo_env a) p =
     (if p = ''/work/in.docx'' then Inr [0x50, 0x4B] else Inl ''No such file'')"
  "abspath (demo_env a) p = ''/work/'' @ p"
  "basename (demo_env a) p = p"
  "json_loads (demo_env a) s =
     (if s = ''[]'' then Inr (JArray [])
      else if s = ''{}'' then Inr (JObject []) else Inl ''Expecting value'')"
  "post (demo_env a) r = a"
  "b64decode (demo_env a) s =
     (if s = ''UEs='' then Inr [0x50, 0x4B] else Inl ''Incorrect padding'')"
  "open_wb (demo_env a) p = None"
  "write_error (demo_env a) p b = None"
  by (simp_all add: demo_env_def)

lemma init_opts_fields:
  "annotations_json init_opts = None"
  "service_url init_opts = default_service_url"
  "positional init_opts = []"
  by (simp_all add: init_opts_def)

lemma demo_prepare:
  "prepare (demo_env answer) demo_args =
     Inr (init_opts\<lparr>positional := demo_args\<rparr>, ''out.docx'', demo_request demo_url)"
  by (simp add: prepare_def parse_args_def demo_args_def demo_env_fields required_def
      annotations_input_def falsy_def validate_def init_opts_def build_request_def
      demo_request_def demo_url_def default_service_url_def rstrip_def)

subsection \<open>The stages\<close>

lemma main_prepared:
  "prepare env args = Inr (st, output_path, req) \<Longrightarrow> post env req = Inr resp \<Longrightarrow>
   main env args = after [Post req] (handle_response env output_path resp)"
  by (simp add: main_def)

lemma main_posts: "prepare env args = Inr (st, output_path, req) \<Longrightarrow>
  \<exists>evs. trace (main env args) = Post req # evs"
  by (simp add: main_def after_def)

lemma prepare_cases:
  assumes "prepare env args = Inr (st, output_path, req)"
  obtains input_path annotations_text annotations fbytes where
    "requests_installed env" "parse_args env args = Inr st"
    "required st = Inr (input_path, output_path, annotations_text)"
    "validate env annotations_text = Inr annotations"
    "read_bytes env (abspath env input_path) = Inr fbytes"
    "req = build_request env st input_path fbytes annotations"
  using assms
  by (auto simp: prepare_def split: if_splits sum.splits prod.splits)

lemma required_cases:
  assumes "required st = Inr (input_path, output_path, annotations_text)"
  shows "1 < length (positional st) \<and> input_path = positional st ! 0 \<and>
         output_path = positional st ! 1 \<and> annotations_input st = Some annotations_text \<and>
         input_path \<noteq> [] \<and> output_path \<noteq> [] \<and> annotations_text \<noteq> []"
  using assms
  by (auto simp: required_def falsy_def Let_def split: if_splits option.splits)

lemma required_bails: "required st = Inl out \<Longrightarrow> out = bail (JString usage)"
  by (auto simp: required_def falsy_def Let_def split: if_splits option.splits)

lemma validate_cases:
  "validate env s = Inr v \<Longrightarrow> json_loads env s = Inr v \<and> is_list v"
  by (auto simp: validate_def split: sum.splits if_splits)

lemma validate_bails: "validate env s = Inl out \<Longrightarrow> \<exists>msg. out = bail (JString msg)"
  by (auto simp: validate_def split: sum.splits if_splits)

lemma is_list_cases: "is_list v \<Longrightarrow> \<exists>xs. v = JArray xs"
  by (cases v) simp_all

lemma prepare_stops:
  assumes "parse_args env args = Inr st" "prepare env args = Inl out"
  shows "\<exists>msg. out = bail (JString msg)"
  using assms
  by (auto simp: prepare_def split: if_splits sum.splits prod.splits
      dest: required_bails validate_bails)

subsection \<open>The scan against the documented command line\<close>

lemma option_values_flag:
  "a \<in> set value_options \<Longrightarrow>
   option_values opt (a # v # rest) =
     (if a = opt then v # option_values opt rest else option_values opt rest)"
  by simp

lemma option_values_other:
  "a \<notin> set value_options \<Longrightarrow> option_values opt (a # v # rest) = option_values opt (v # rest)"
  by simp

lemma arg_kinds:
  obtains (json) "arg = ''--json''" | (url) "arg = ''--url''" | (author) "arg = ''--author''"
    | (initials) "arg = ''--initials''" | (helpflag) "arg = ''--help'' \<or> arg = ''-h''"
    | (other) "arg \<notin> set value_options" "arg \<noteq> ''--help''" "arg \<noteq> ''-h''"
  by (auto simp: value_options_def)

lemma parse_loop_json:
  "parse_loop env (''--json'' # p # rest) st =
     (case read_text env p of
        ReadError e \<Rightarrow> Inl (bail (JString (''Cannot read JSON file: '' @ e)))
      | DecodeError \<Rightarrow> Inl (uncaught UnicodeDecodeError)
      | Content s \<Rightarrow> parse_loop env rest (st\<lparr>annotations_json := Some s\<rparr>))"
  by simp

lemma parse_loop_url:
  "parse_loop env (''--url'' # v # rest) st = parse_loop env rest (st\<lparr>service_url := v\<rparr>)"
  by simp

lemma parse_loop_author:
  "parse_loop env (''--author'' # v # rest) st = parse_loop env rest (st\<lparr>author := v\<rparr>)"
  by simp

lemma parse_loop_initials:
  "parse_loop env (''--initials'' # v # rest) st = parse_loop env rest (st\<lparr>initials := v\<rparr>)"
  by simp

lemma parse_loop_help:
  "arg = ''--help'' \<or> arg = ''-h'' \<Longrightarrow> parse_loop env (arg # rest) st = Inl help_exit"
  by auto

lemma parse_loop_other:
  "arg \<notin> set value_options \<Longrightarrow> arg \<noteq> ''--help'' \<Longrightarrow> arg \<noteq> ''-h'' \<Longrightarrow>
   parse_loop env (arg # rest) st = parse_loop env rest (st\<lparr>positional := positional st @ [arg]\<rparr>)"
  by (simp add: value_options_def)

lemma parse_loop_dangling:
  "arg \<in> set value_options \<Longrightarrow> parse_loop env [arg] st \<noteq> Inr st'"
  by (auto simp: value_options_def)

lemma parse_loop_scanned:
  "parse_loop env args st = Inr st' \<Longrightarrow> scanned env args st st'"
proof (induction "length args" arbitrary: args st rule: less_induct)
  case less
  show ?case
  proof (cases args)
    case Nil
    with less.prems show ?thesis by (simp add: scanned_def)
  next
    case (Cons arg rest)
    note args = Cons
    show ?thesis
    proof (cases rest)
      case Nil
      show ?thesis
      proof (cases "arg \<in> set value_options")
        case True
        with less.prems args Nil show ?thesis
          using parse_loop_dangling by blast
      next
        case False
        with less.prems args Nil show ?thesis
          by (auto simp: value_options_def scanned_def split: if_splits)
      qed
    next
      case (Cons v rest')
      have ih: "parse_loop env rest' s = Inr st' \<Longrightarrow> scanned env rest' s st'" for s
        using less.hyps [of rest' s] args Cons by simp
      have ih': "parse_loop env rest s = Inr st' \<Longrightarrow> scanned env rest s st'" for s
        using less.hyps [of rest s] args by simp
      show ?thesis
      proof (cases arg rule: arg_kinds)
        case json
        from less.prems args Cons json obtain s where
          s: "read_text env v = Content s" and
          "parse_loop env rest' (st\<lparr>annotations_json := Some s\<rparr>) = Inr st'"
          by (auto simp del: parse_loop.simps simp add: parse_loop_json split: text_read.splits)
        then have "scanned env rest' (st\<lparr>annotations_json := Some s\<rparr>) st'"
          using ih by blast
        moreover have "option_values opt args =
            (if opt = ''--json'' then v # option_values opt rest' else option_values opt rest')" for opt
          using args Cons json by (simp add: value_options_def)
        ultimately show ?thesis
          using s by (simp add: scanned_def)
      next
        case url
        from less.prems args Cons url have
          "parse_loop env rest' (st\<lparr>service_url := v\<rparr>) = Inr st'"
          by (simp del: parse_loop.simps add: parse_loop_url)
        then have "scanned env rest' (st\<lparr>service_url := v\<rparr>) st'"
          using ih by blast
        moreover have "option_values opt args =
            (if opt = ''--url'' then v # option_values opt rest' else option_values opt rest')" for opt
          using args Cons url by (simp add: value_options_def)
        ultimately show ?thesis
          by (simp add: scanned_def)
      next
        case author
        from less.prems args Cons author have
          "parse_loop env rest' (st\<lparr>author := v\<rparr>) = Inr st'"
          by (simp del: parse_loop.simps add: parse_loop_author)
        then have "scanned env rest' (st\<lparr>author := v\<rparr>) st'"
          using ih by blast
        moreover have "option_values opt args =
            (if opt = ''--author'' then v # option_values opt rest' else option_values opt rest')" for opt
          using args Cons author by (simp add: value_options_def)
        ultimately show ?thesis
          by (simp add: scanned_def)
      next
        case initials
        from less.prems args Cons initials have
          "parse_loop env rest' (st\<lparr>initials := v\<rparr>) = Inr st'"
          by (simp del: parse_loop.simps add: parse_loop_initials)
        then have "scanned env rest' (st\<lparr>initials := v\<rparr>) st'"
          using ih by blast
        moreover have "option_values opt args =
            (if opt = ''--initials'' then v # option_values opt rest' else option_values opt rest')" for opt
          using args Cons initials by (simp add: value_options_def)
        ultimately show ?thesis
          by (simp add: scanned_def)
      next
        case helpflag
        with less.prems args show ?thesis
          using parse_loop_help [of arg env rest st] by simp
      next
        case other
        with less.prems args have
          "parse_loop env rest (st\<lparr>positional := positional st @ [arg]\<rparr>) = Inr st'"
          by (simp del: parse_loop.simps add: parse_loop_other)
        then have "scanned env rest (st\<lparr>positional := positional st @ [arg]\<rparr>) st'"
          using ih' by blast
        moreover have "option_values opt args = option_values opt rest" for opt
          using args Cons other by (simp del: option_values.simps add: option_values_other)
        ultimately show ?thesis
          by (simp add: scanned_def)
      qed
    qed
  qed
qed

lemma parse_args_scanned:
  assumes "parse_args env args = Inr st"
  shows "service_url st =
           (if option_values ''--url'' args = [] then default_service_url
            else last (option_values ''--url'' args))"
    and "option_values ''--json'' args = [] \<Longrightarrow> annotations_json st = None"
    and "option_values ''--json'' args \<noteq> [] \<Longrightarrow>
           \<exists>s. read_text env (last (option_values ''--json'' args)) = Content s \<and>
               annotations_json st = Some s"
  using parse_loop_scanned [of env args init_opts st] assms
  by (simp_all add: parse_args_def scanned_def init_opts_fields)






subsection \<open>Stripping trailing slashes\<close>

lemma takeWhile_eq_replicate:
  "takeWhile (\<lambda>x. x = c) xs = replicate (length (takeWhile (\<lambda>x. x = c) xs)) c"
  by (induction xs) simp_all

lemma rstrip_decomp: "s = rstrip c s @ replicate (length s - length (rstrip c s)) c"
proof -
  let ?P = "\<lambda>x. x = c"
  let ?t = "takeWhile ?P (rev s)"
  let ?d = "dropWhile ?P (rev s)"
  have "s = rev (?t @ ?d)"
    by simp
  also have "\<dots> = rev ?d @ rev ?t"
    by (rule rev_append)
  finally have s: "s = rev ?d @ rev ?t" .
  have "length s = length ?t + length ?d"
    using arg_cong [OF s, of length] by simp
  then have n: "length ?t = length s - length (rstrip c s)"
    by (simp add: rstrip_def)
  have "rev ?t = rev (replicate (length ?t) c)"
    using takeWhile_eq_replicate [of c "rev s"] by simp
  then have "rev ?t = replicate (length s - length (rstrip c s)) c"
    using n by simp
  with s show ?thesis
    by (simp add: rstrip_def)
qed

lemma rstrip_no_trailing: "rstrip c s \<noteq> t @ [c]"
proof
  let ?d = "dropWhile (\<lambda>x. x = c) (rev s)"
  assume "rstrip c s = t @ [c]"
  then have "rev (rstrip c s) = rev (t @ [c])"
    by (rule arg_cong)
  then have d: "?d = c # rev t"
    by (simp add: rstrip_def)
  then have "?d \<noteq> []"
    by simp
  then have "hd ?d \<noteq> c"
    by (rule hd_dropWhile)
  with d show False
    by simp
qed

subsection \<open>Effects on files\<close>

text \<open>
  A run that stops before the POST has no effect outside the process, and a response
  other than 200 adds none to the POST. A file is created or written only at the
  absolute output path and only after a 200 response. On such a response whose body is
  JSON, the output file is created as soon as it can be opened, whatever the body holds.
\<close>

lemma quiet_fields:
  "trace (bail msg) = []" "trace (uncaught e) = []" "trace help_exit = []"
  by (simp_all add: bail_def uncaught_def help_exit_def)

lemma parse_loop_last_quiet:
  assumes "parse_loop env [arg] st = Inl out"
  shows "trace out = []"
proof (cases arg rule: arg_kinds)
  case json
  with assms show ?thesis by (auto simp: quiet_fields)
next
  case url
  with assms show ?thesis by (auto simp: quiet_fields)
next
  case author
  with assms show ?thesis by (auto simp: quiet_fields)
next
  case initials
  with assms show ?thesis by (auto simp: quiet_fields)
next
  case helpflag
  with assms show ?thesis
    using parse_loop_help [of arg env "[]" st] by (auto simp: quiet_fields)
next
  case other
  with assms show ?thesis
    using parse_loop_other [of arg env "[]" st] by simp
qed

lemma parse_loop_stops_quietly:
  "parse_loop env args st = Inl out \<Longrightarrow> trace out = []"
proof (induction "length args" arbitrary: args st rule: less_induct)
  case less
  show ?case
  proof (cases args)
    case Nil
    with less.prems show ?thesis by simp
  next
    case (Cons arg rest)
    note args = Cons
    show ?thesis
    proof (cases rest)
      case Nil
      with less.prems args show ?thesis
        using parse_loop_last_quiet by blast
    next
      case (Cons v rest')
      have ih: "parse_loop env rest' s = Inl out \<Longrightarrow> trace out = []" for s
        using less.hyps [of rest' s] args Cons by simp
      have ih': "parse_loop env rest s = Inl out \<Longrightarrow> trace out = []" for s
        using less.hyps [of rest s] args by simp
      show ?thesis
      proof (cases arg rule: arg_kinds)
        case json
        from less.prems args Cons json have
          "(case read_text env v of
              ReadError e \<Rightarrow> Inl (bail (JString (''Cannot read JSON file: '' @ e)))
            | DecodeError \<Rightarrow> Inl (uncaught UnicodeDecodeError)
            | Content s \<Rightarrow> parse_loop env rest' (st\<lparr>annotations_json := Some s\<rparr>)) = Inl out"
          by (simp del: parse_loop.simps add: parse_loop_json)
        then show ?thesis
          using ih by (cases "read_text env v") (auto simp: quiet_fields)
      next
        case url
        with less.prems args Cons ih show ?thesis
          by (simp del: parse_loop.simps add: parse_loop_url)
      next
        case author
        with less.prems args Cons ih show ?thesis
          by (simp del: parse_loop.simps add: parse_loop_author)
      next
        case initials
        with less.prems args Cons ih show ?thesis
          by (simp del: parse_loop.simps add: parse_loop_initials)
      next
        case helpflag
        with less.prems args show ?thesis
          using parse_loop_help [of arg env rest st] by (auto simp: quiet_fields)
      next
        case other
        with less.prems args ih' show ?thesis
          by (simp del: parse_loop.simps add: parse_loop_other)
      qed
    qed
  qed
qed

lemma prepare_stops_quietly:
  assumes "prepare env args = Inl out"
  shows "trace out = []"
proof (cases "requests_installed env")
  case False
  with assms show ?thesis
    by (auto simp: prepare_def quiet_fields)
next
  case True
  show ?thesis
  proof (cases "parse_args env args")
    case (Inl o1)
    with assms True have "out = o1"
      by (simp add: prepare_def)
    with Inl show ?thesis
      using parse_loop_stops_quietly by (simp add: parse_args_def)
  next
    case (Inr st)
    with assms obtain msg where "out = bail (JString msg)"
      using prepare_stops by blast
    then show ?thesis
      by (simp add: quiet_fields)
  qed
qed

lemma no_file_unless_200:
  assumes "status_code resp \<noteq> 200"
  shows "trace (handle_response env output_path resp) = []"
proof (cases "resp_json resp")
  case (Inl e)
  with assms show ?thesis
    by (simp add: handle_response_def quiet_fields)
next
  case (Inr err)
  with assms show ?thesis
    by (simp add: handle_response_def quiet_fields)
qed

lemma trace_after_quiet:
  "trace (after evs (bail msg)) = evs" "trace (after evs (uncaught e)) = evs"
  "trace (after evs (unexpected s)) = evs"
  by (simp_all add: after_def bail_def uncaught_def unexpected_def)

lemma write_output_trace:
  "trace (write_output env output_path resp) = [] \<or>
   trace (write_output env output_path resp) = [Create (abspath env output_path)] \<or>
   (\<exists>decoded. trace (write_output env output_path resp) =
      [Create (abspath env output_path), Write (abspath env output_path) decoded])"
proof (cases "resp_json resp")
  case (Inl e)
  then show ?thesis
    by (simp add: write_output_def unexpected_def quiet_fields)
next
  case (Inr envelope)
  note body = Inr
  show ?thesis
  proof (cases "open_wb env (abspath env output_path)")
    case (Some e)
    with body show ?thesis
      by (simp add: write_output_def unexpected_def quiet_fields)
  next
    case None
    note opened = None
    show ?thesis
    proof (cases "is_dict envelope")
      case False
      with body opened show ?thesis
        by (simp add: write_output_def trace_after_quiet)
    next
      case True
      show ?thesis
      proof (cases "dict_get envelope ''file''")
        case None
        with body opened True show ?thesis
          by (simp add: write_output_def trace_after_quiet)
      next
        case (Some v)
        show ?thesis
        proof (cases "\<exists>s. v = JString s")
          case False
          with body opened True Some show ?thesis
            by (cases v) (simp_all add: write_output_def trace_after_quiet)
        next
          case True
          then obtain s where s: "v = JString s" by blast
          show ?thesis
          proof (cases "b64decode env s")
            case (Inl e)
            with body opened \<open>is_dict envelope\<close> Some s show ?thesis
              by (simp add: write_output_def trace_after_quiet)
          next
            case (Inr decoded)
            with body opened \<open>is_dict envelope\<close> Some s show ?thesis
              by (cases "write_error env (abspath env output_path) decoded")
                (simp_all add: write_output_def after_def unexpected_def bail_def Let_def)
          qed
        qed
      qed
    qed
  qed
qed

lemma file_only_after_200:
  assumes "Create p \<in> set (trace (main env args)) \<or> Write p b \<in> set (trace (main env args))"
  shows "\<exists>st output_path req resp.
           prepare env args = Inr (st, output_path, req) \<and> post env req = Inr resp \<and>
           status_code resp = 200 \<and> p = abspath env output_path"
proof (cases "prepare env args")
  case (Inl out)
  with assms show ?thesis
    using prepare_stops_quietly [OF Inl] by (simp add: main_def)
next
  case (Inr r)
  obtain st output_path req where r: "r = (st, output_path, req)"
    by (cases r) auto
  with Inr have prep: "prepare env args = Inr (st, output_path, req)"
    by simp
  show ?thesis
  proof (cases "post env req")
    case (Inl e)
    with assms prep show ?thesis
      by (simp add: main_def after_def bail_def)
  next
    case (Inr resp)
    note run = main_prepared [OF prep Inr]
    show ?thesis
    proof (cases "status_code resp = 200")
      case True
      with assms run have
        "Create p \<in> set (trace (write_output env output_path resp)) \<or>
         Write p b \<in> set (trace (write_output env output_path resp))"
        by (simp add: after_def handle_response_def)
      then have "p = abspath env output_path"
        using write_output_trace [of env output_path resp] by auto
      with True Inr prep show ?thesis
        by blast
    next
      case False
      with assms run show ?thesis
        using no_file_unless_200 [OF False, of env output_path] by (simp add: after_def)
    qed
  qed
qed

lemma output_created_before_decoding:
  assumes "prepare env args = Inr (st, output_path, req)"
    and "post env req = Inr resp"
    and "status_code resp = 200"
    and "resp_json resp = Inr envelope"
    and "open_wb env (abspath env output_path) = None"
  shows "\<exists>evs. trace (main env args) = Post req # Create (abspath env output_path) # evs"
  using assms
  by (simp add: main_prepared handle_response_def write_output_def after_def Let_def)

subsection \<open>The output file on a malformed success response\<close>

text \<open>
  C1 says that a file appears at the output path only on the success path. The script
  opens the output file on line 176, before line 177 reads \<^verbatim>\<open>envelope["file"]\<close> and
  decodes it. Run on a 200 response whose body is the JSON object \<^verbatim>\<open>{}\<close>, the script
  exits with code 1 and reports an unexpected response, yet it has created the output
  file, empty; a document that was at the output path before the run is truncated to
  nothing.
\<close>

theorem output_file_left_by_malformed_success:
  "main (demo_env (Inr response_no_file)) demo_args =
     \<lparr>how = SysExit 1,
      stdout = [PrintJson None (JObject [(''ok'', JBool False),
        (''error'', JString (''Unexpected response from service: '' @ CHR 0x27 # ''file'' @ [CHR 0x27]))])],
      trace = [Post (demo_request demo_url), Create ''/work/out.docx'']\<rparr> \<and>
   files_after [''/work/out.docx'' \<mapsto> [1, 2, 3]] (main (demo_env (Inr response_no_file)) demo_args)
     ''/work/out.docx'' = Some []"
  by (simp add: main_def demo_prepare handle_response_def write_output_def unexpected_def
      after_def bail_def demo_env_fields response_no_file_def files_after_def)

subsection \<open>An error body that is JSON but not an object\<close>

text \<open>
  C2 says that for every HTTP response the script prints one JSON object and exits with a
  defined code, never raising an unhandled exception. Line 161 tests
  \<^verbatim>\<open>isinstance(err, dict)\<close>, line 169 calls \<^verbatim>\<open>err.get\<close> without it. Run on a 500
  response whose body is the JSON array \<^verbatim>\<open>[]\<close>, the script ends in an uncaught
  \<^verbatim>\<open>AttributeError\<close> and prints nothing on standard output.
\<close>

theorem list_error_body_is_uncaught:
  "main (demo_env (Inr response_list_body)) demo_args =
     \<lparr>how = Uncaught AttributeError, stdout = [], trace = [Post (demo_request demo_url)]\<rparr>"
  by (simp add: main_def demo_prepare handle_response_def after_def uncaught_def
      demo_env_fields response_list_body_def)

subsection \<open>A successful run\<close>

text \<open>
  C3. For valid arguments (everything before the POST passes) and a 200 response whose
  JSON body is an object with a \<^verbatim>\<open>file\<close> field holding valid base64, with an output
  path that can be opened and written, the script writes exactly the decoded bytes to
  the absolute output path, the second positional argument, prints the success object
  and exits with code 0.
\<close>

theorem success_writes_decoded_bytes:
  assumes "prepare env args = Inr (st, output_path, req)"
    and "post env req = Inr resp"
    and "status_code resp = 200"
    and "resp_json resp = Inr (JObject kv)"
    and "map_of kv ''file'' = Some (JString s)"
    and "b64decode env s = Inr decoded"
    and "open_wb env (abspath env output_path) = None"
    and "write_error env (abspath env output_path) decoded = None"
  shows "main env args =
           \<lparr>how = SysExit 0,
            stdout = [PrintJson (Some 2)
              (JObject [(''ok'', JBool True), (''output'', JString (abspath env output_path))])],
            trace = [Post req, Create (abspath env output_path),
                     Write (abspath env output_path) decoded]\<rparr>
         \<and> files_after fs (main env args) (abspath env output_path) = Some decoded
         \<and> 1 < length (positional st) \<and> output_path = positional st ! 1"
proof -
  from assms(1) have "1 < length (positional st) \<and> output_path = positional st ! 1"
    by (auto elim!: prepare_cases dest: required_cases)
  with assms show ?thesis
    by (simp add: main_prepared handle_response_def write_output_def after_def files_after_def
        Let_def)
qed

theorem success_writes_decoded_bytes_witness:
  "main (demo_env (Inr response_ok)) demo_args =
     \<lparr>how = SysExit 0,
      stdout = [PrintJson (Some 2)
        (JObject [(''ok'', JBool True), (''output'', JString ''/work/out.docx'')])],
      trace = [Post (demo_request demo_url), Create ''/work/out.docx'',
               Write ''/work/out.docx'' [0x50, 0x4B]]\<rparr> \<and>
   files_after Map.empty (main (demo_env (Inr response_ok)) demo_args) ''/work/out.docx'' =
     Some [0x50, 0x4B]"
proof -
  let ?env = "demo_env (Inr response_ok)"
  have a: "post ?env (demo_request demo_url) = Inr response_ok"
    by (simp add: demo_env_fields)
  have b: "status_code response_ok = 200"
    by (simp add: response_ok_def)
  have c: "resp_json response_ok = Inr (JObject [(''file'', JString ''UEs='')])"
    by (simp add: response_ok_def)
  have d: "map_of [(''file'', JString ''UEs='')] ''file'' = Some (JString ''UEs='')"
    by simp
  have e: "b64decode ?env ''UEs='' = Inr [0x50, 0x4B]"
    by (simp add: demo_env_fields)
  have f: "open_wb ?env (abspath ?env ''out.docx'') = None"
    by (simp add: demo_env_fields)
  have g: "write_error ?env (abspath ?env ''out.docx'') [0x50, 0x4B] = None"
    by (simp add: demo_env_fields)
  note run = success_writes_decoded_bytes [OF demo_prepare a b c d e f g, of Map.empty]
  show ?thesis
    using run [THEN conjunct1] run [THEN conjunct2, THEN conjunct1]
    by (simp add: demo_env_fields)
qed

subsection \<open>Annotations the service could not apply\<close>

text \<open>
  C4. For a 422 response whose JSON body is an object with a list under \<^verbatim>\<open>errors\<close>,
  the script exits with code 2, touches no file (the POST is its only effect), and the
  JSON object it prints holds that list unchanged under \<^verbatim>\<open>errors\<close>.
\<close>

theorem semantic_failure_exit_2:
  assumes "prepare env args = Inr (st, output_path, req)"
    and "post env req = Inr resp"
    and "status_code resp = 422"
    and "resp_json resp = Inr (JObject kv)"
    and "map_of kv ''errors'' = Some (JArray es)"
  shows "main env args =
           \<lparr>how = SysExit 2,
            stdout = [PrintJson (Some 2)
              (JObject [(''ok'', JBool False),
                        (''error'', JString ''One or more annotations could not be applied.''),
                        (''errors'', JArray es)])],
            trace = [Post req]\<rparr>
         \<and> files_after fs (main env args) = fs"
  using assms
  by (simp add: main_prepared handle_response_def after_def files_after_def)

theorem semantic_failure_exit_2_witness:
  "main (demo_env (Inr response_unresolved)) demo_args =
     \<lparr>how = SysExit 2,
      stdout = [PrintJson (Some 2)
        (JObject [(''ok'', JBool False),
                  (''error'', JString ''One or more annotations could not be applied.''),
                  (''errors'', JArray [JString ''no match''])])],
      trace = [Post (demo_request demo_url)]\<rparr>"
proof -
  let ?env = "demo_env (Inr response_unresolved)"
  have a: "post ?env (demo_request demo_url) = Inr response_unresolved"
    by (simp add: demo_env_fields)
  have b: "status_code response_unresolved = 422"
    by (simp add: response_unresolved_def)
  have c: "resp_json response_unresolved =
      Inr (JObject [(''errors'', JArray [JString ''no match''])])"
    by (simp add: response_unresolved_def)
  have d: "map_of [(''errors'', JArray [JString ''no match''])] ''errors'' =
      Some (JArray [JString ''no match''])"
    by simp
  show ?thesis
    using semantic_failure_exit_2 [OF demo_prepare a b c d, of Map.empty]
    by simp
qed

subsection \<open>Annotations that are not a JSON array\<close>

text \<open>
  C5. Whenever the scan of the command line runs to the end and the annotations text it
  leaves (from the \<^verbatim>\<open>--json\<close> file, else the third positional argument) is not valid
  JSON or is JSON whose top-level value is not an array, the script exits with code 1
  printing one error object, sends no request and touches no file.
\<close>

theorem invalid_annotations_stop:
  assumes "parse_args env args = Inr st"
    and "annotations_input st = Some s"
    and "\<forall>xs. json_loads env s \<noteq> Inr (JArray xs)"
  shows "how (main env args) = SysExit 1 \<and> trace (main env args) = [] \<and>
         (\<exists>msg. stdout (main env args) =
            [PrintJson None (JObject [(''ok'', JBool False), (''error'', JString msg)])])"
proof (cases "prepare env args")
  case (Inl out)
  with assms(1) obtain msg where "out = bail (JString msg)"
    using prepare_stops by blast
  with Inl show ?thesis
    by (simp add: main_def bail_fields)
next
  case (Inr r)
  obtain st' output_path req where r: "r = (st', output_path, req)"
    by (cases r) auto
  from Inr r obtain input_path a anns where
    p: "parse_args env args = Inr st'" and q: "required st' = Inr (input_path, output_path, a)"
    and v: "validate env a = Inr anns"
    by (auto elim: prepare_cases)
  from p assms(1) have "st' = st" by simp
  with q assms(2) have "a = s"
    using required_cases by fastforce
  with v have "json_loads env s = Inr anns" "is_list anns"
    using validate_cases by blast+
  with assms(3) show ?thesis
    using is_list_cases by blast
qed

theorem invalid_annotations_stop_witness:
  "how (main (demo_env (Inr response_ok)) [''in.docx'', ''out.docx'', ''{}'']) = SysExit 1 \<and>
   trace (main (demo_env (Inr response_ok)) [''in.docx'', ''out.docx'', ''{}'']) = []"
proof -
  let ?env = "demo_env (Inr response_ok)"
  let ?st = "init_opts\<lparr>positional := [''in.docx'', ''out.docx'', ''{}'']\<rparr>"
  have p: "parse_args ?env [''in.docx'', ''out.docx'', ''{}''] = Inr ?st"
    by (simp add: parse_args_def init_opts_fields)
  have a: "annotations_input ?st = Some ''{}''"
    by (simp add: annotations_input_def init_opts_fields)
  have j: "\<forall>xs. json_loads ?env ''{}'' \<noteq> Inr (JArray xs)"
    by (simp add: demo_env_fields)
  show ?thesis
    using invalid_annotations_stop [OF p a j] by simp
qed

subsection \<open>An input file that cannot be read\<close>

text \<open>
  C6. If the input file (the first positional argument, made absolute) cannot be read,
  the script exits with code 1 and has sent no request and touched no file; when the
  stages before the read pass (\<^verbatim>\<open>requests\<close> is installed, the annotations are a JSON
  array) what it prints is the read error. So the POST is reached only after the input
  bytes were read.
\<close>

theorem unreadable_input_no_request:
  assumes "parse_args env args = Inr st"
    and "required st = Inr (input_path, output_path, annotations_text)"
    and "read_bytes env (abspath env input_path) = Inl e"
  shows "how (main env args) = SysExit 1 \<and> trace (main env args) = [] \<and>
         (\<forall>annotations. requests_installed env \<and> validate env annotations_text = Inr annotations \<longrightarrow>
            stdout (main env args) =
              [PrintJson None (JObject [(''ok'', JBool False),
                 (''error'', JString (''Cannot read input file: '' @ e))])])"
proof (cases "prepare env args")
  case (Inl out)
  with assms(1) obtain msg where "out = bail (JString msg)"
    using prepare_stops by blast
  with Inl assms show ?thesis
    by (auto simp: main_def bail_fields prepare_def)
next
  case (Inr r)
  with assms show ?thesis
    by (auto simp: prepare_def split: if_splits sum.splits)
qed

theorem unreadable_input_no_request_witness:
  "how (main (demo_env (Inr response_ok)) [''gone.docx'', ''out.docx'', ''[]'']) = SysExit 1 \<and>
   trace (main (demo_env (Inr response_ok)) [''gone.docx'', ''out.docx'', ''[]'']) = [] \<and>
   stdout (main (demo_env (Inr response_ok)) [''gone.docx'', ''out.docx'', ''[]'']) =
     [PrintJson None (JObject [(''ok'', JBool False),
        (''error'', JString ''Cannot read input file: No such file'')])]"
proof -
  let ?env = "demo_env (Inr response_ok)"
  let ?st = "init_opts\<lparr>positional := [''gone.docx'', ''out.docx'', ''[]'']\<rparr>"
  have p: "parse_args ?env [''gone.docx'', ''out.docx'', ''[]''] = Inr ?st"
    by (simp add: parse_args_def init_opts_fields)
  have r: "required ?st = Inr (''gone.docx'', ''out.docx'', ''[]'')"
    by (simp add: required_def annotations_input_def falsy_def init_opts_fields)
  have b: "read_bytes ?env (abspath ?env ''gone.docx'') = Inl ''No such file''"
    by (simp add: demo_env_fields)
  have v: "validate ?env ''[]'' = Inr (JArray [])"
    by (simp add: validate_def demo_env_fields)
  show ?thesis
    using unreadable_input_no_request [OF p r b] v
    by (simp add: demo_env_fields)
qed

subsection \<open>An error body that is a JSON string\<close>

text \<open>
  C7 says that every response other than 200 and other than the 422 of C4 makes the
  script exit with code 1 and print the body's \<^verbatim>\<open>error\<close> field or, without one, the
  first 500 characters of the raw text. Run on a 404 response whose body is the JSON
  string \<^verbatim>\<open>"Not Found"\<close>, the script prints nothing on standard output: line 169
  calls \<^verbatim>\<open>err.get\<close> on a \<^verbatim>\<open>str\<close> and the \<^verbatim>\<open>AttributeError\<close> is not caught.
\<close>

theorem string_error_body_prints_nothing:
  "stdout (main (demo_env (Inr response_string_body)) demo_args) = [] \<and>
   how (main (demo_env (Inr response_string_body)) demo_args) = Uncaught AttributeError"
  by (simp add: main_def demo_prepare handle_response_def after_def uncaught_def
      demo_env_fields response_string_body_def)

text \<open>
  What does hold of line 157 and line 169: a body that is not JSON, or that is a JSON
  object, is reported with exit code 1, and the text printed from the raw body has at
  most 500 characters.
\<close>

lemma other_failure_reported:
  assumes "status_code resp \<noteq> 200"
    and "resp_json resp = Inl e \<or>
         (resp_json resp = Inr (JObject kv) \<and>
          (status_code resp = 422 \<longrightarrow> (\<forall>es. map_of kv ''errors'' \<noteq> Some (JArray es))))"
  shows "handle_response env output_path resp =
           bail (case resp_json resp of
                   Inl e \<Rightarrow> JString (take 500 (resp_text resp))
                 | Inr err \<Rightarrow>
                     (case dict_get err ''error'' of
                        None \<Rightarrow> JString (take 500 (resp_text resp))
                      | Some v \<Rightarrow> v))"
proof -
  have "\<not> is_list v" if "\<forall>es. v \<noteq> JArray es" for v
    using that by (cases v) simp_all
  with assms show ?thesis
    by (auto simp: handle_response_def split: option.splits)
qed

lemma raw_text_truncated: "length (take 500 (resp_text resp)) \<le> 500"
  by simp

subsection \<open>The request URL\<close>

text \<open>
  C8. The request is sent to the service URL, which is the last value given with
  \<^verbatim>\<open>--url\<close> or else the default, with all its trailing slashes stripped (what is
  stripped is slashes only, and what is left does not end in a slash), followed by
  \<^verbatim>\<open>/api/annotate\<close>.
\<close>

theorem request_url_no_double_slash:
  assumes "prepare env args = Inr (st, output_path, req)"
  shows "url req = rstrip CHR ''/'' (service_url st) @ ''/api/annotate'' \<and>
         service_url st =
           (if option_values ''--url'' args = [] then default_service_url
            else last (option_values ''--url'' args)) \<and>
         service_url st =
           rstrip CHR ''/'' (service_url st) @
           replicate (length (service_url st) - length (rstrip CHR ''/'' (service_url st))) CHR ''/'' \<and>
         (\<forall>t. rstrip CHR ''/'' (service_url st) \<noteq> t @ ''/'') \<and>
         (\<exists>evs. trace (main env args) = Post req # evs)"
proof -
  from assms obtain input_path fbytes annotations where
    p: "parse_args env args = Inr st" and
    r: "req = build_request env st input_path fbytes annotations"
    by (auto elim: prepare_cases)
  from r have "url req = rstrip CHR ''/'' (service_url st) @ ''/api/annotate''"
    by (simp add: build_request_def)
  moreover note parse_args_scanned(1) [OF p]
  moreover note main_posts [OF assms]
  moreover note rstrip_decomp [of "service_url st" "CHR ''/''"]
  moreover have "\<forall>t. rstrip CHR ''/'' (service_url st) \<noteq> t @ ''/''"
    using rstrip_no_trailing [of "CHR ''/''" "service_url st"] by simp
  ultimately show ?thesis
    by blast
qed

theorem request_url_no_double_slash_witness:
  "rstrip CHR ''/'' ''http://x/'' @ ''/api/annotate'' = ''http://x/api/annotate'' \<and>
   (\<exists>evs. trace (main (demo_env (Inr response_ok))
               [''in.docx'', ''out.docx'', ''[]'', ''--url'', ''http://x/'']) =
          Post (demo_request ''http://x/api/annotate'') # evs)"
proof -
  let ?env = "demo_env (Inr response_ok)"
  let ?st = "init_opts\<lparr>service_url := ''http://x/'', positional := demo_args\<rparr>"
  have "prepare ?env [''in.docx'', ''out.docx'', ''[]'', ''--url'', ''http://x/''] =
      Inr (?st, ''out.docx'', demo_request ''http://x/api/annotate'')"
    by (simp add: prepare_def parse_args_def demo_args_def demo_env_fields required_def
        annotations_input_def falsy_def validate_def init_opts_def build_request_def
        demo_request_def rstrip_def)
  from request_url_no_double_slash [OF this] show ?thesis
    by (simp add: demo_request_def)
qed

subsection \<open>A file of annotations and inline annotations together\<close>



subsection \<open>Empty arguments\<close>

text \<open>
  C10. With \<^verbatim>\<open>requests\<close> installed and the scan run to the end, an empty annotations
  text (a \<^verbatim>\<open>--json\<close> file whose content is empty, or an empty third positional
  argument when no file was given), an empty input path or an empty output path is
  treated as missing: the script exits with code 1 printing the usage error, not a JSON
  parse error.
\<close>

theorem empty_arguments_are_missing:
  assumes "requests_installed env"
    and "parse_args env args = Inr st"
    and "annotations_json st = Some []
         \<or> (annotations_json st = None \<and> 2 < length (positional st) \<and> positional st ! 2 = [])
         \<or> (0 < length (positional st) \<and> positional st ! 0 = [])
         \<or> (1 < length (positional st) \<and> positional st ! 1 = [])"
  shows "main env args = bail (JString usage)"
proof -
  from assms(3) have "required st = Inl (bail (JString usage))"
    by (auto simp: required_def annotations_input_def falsy_def Let_def split: option.splits)
  with assms(1,2) show ?thesis
    by (simp add: main_def prepare_def)
qed

theorem empty_arguments_are_missing_witness:
  "main (demo_env (Inr response_ok)) [''in.docx'', ''out.docx'', ''''] = bail (JString usage) \<and>
   main (demo_env (Inr response_ok)) [''in.docx'', ''out.docx'', ''--json'', ''empty.json''] =
     bail (JString usage)"
proof -
  let ?env = "demo_env (Inr response_ok)"
  have i: "requests_installed ?env"
    by (simp add: demo_env_fields)
  have p: "parse_args ?env [''in.docx'', ''out.docx'', ''''] =
      Inr (init_opts\<lparr>positional := [''in.docx'', ''out.docx'', '''']\<rparr>)"
    by (simp add: parse_args_def init_opts_fields)
  have q: "parse_args ?env [''in.docx'', ''out.docx'', ''--json'', ''empty.json''] =
      Inr (init_opts\<lparr>annotations_json := Some [], positional := [''in.docx'', ''out.docx'']\<rparr>)"
    by (simp add: parse_args_def demo_env_fields init_opts_fields)
  have "main ?env [''in.docx'', ''out.docx'', ''''] = bail (JString usage)"
    using empty_arguments_are_missing [OF i p] by (simp add: init_opts_fields)
  moreover have "main ?env [''in.docx'', ''out.docx'', ''--json'', ''empty.json''] =
      bail (JString usage)"
    using empty_arguments_are_missing [OF i q] by simp
  ultimately show ?thesis
    by simp
qed

end
